theory Spec2Isabelle
  imports Main "HOL-Library.Log_Nat"
begin

section \<open>Go's float64\<close>

text \<open>
  Every number the package computes with is a Go \<open>float64\<close> (IEEE 754 binary64, round to
  nearest, ties to even). A finite value is \<open>Fin s m e\<close>, standing for
  \<open>(-1)^s * m * 2^e\<close>; the values of the format are those with \<open>0 \<le> m < 2^53\<close>,
  \<open>-1074 \<le> e \<le> 971\<close> and \<open>2^52 \<le> m\<close> unless \<open>e = -1074\<close> (subnormal numbers and
  the two zeros \<open>Fin s 0 (-1074)\<close>). \<open>Infty s\<close> is the infinity of sign \<open>s\<close>. The NaN
  payload is not observable by the package, so there is one \<open>NaN\<close>.
\<close>

datatype float64 = NaN | Infty bool | Fin bool int int

definition fzero :: "bool \<Rightarrow> float64" where
  "fzero s = Fin s 0 (- 1074)"

text \<open>
  \<open>round_ratio s n d e\<close> is the float64 nearest to \<open>(-1)^s * (n / d) * 2^e\<close> (for
  \<open>d > 0\<close>), ties to even, with overflow to infinity and gradual underflow: \<open>l\<close> is the
  binary exponent of \<open>n / d\<close>, \<open>t\<close> the exponent of the last place kept, \<open>q\<close> and
  \<open>r\<close> the quotient and remainder of the exact value in units of \<open>2^t\<close>.
\<close>

definition round_ratio :: "bool \<Rightarrow> int \<Rightarrow> int \<Rightarrow> int \<Rightarrow> float64" where
  "round_ratio s n d e =
     (if n = 0 then fzero s
      else
        let k = bitlen n - bitlen d;
            l = (if d * 2 ^ nat k \<le> n * 2 ^ nat (- k) then k else k - 1);
            t = max (l + e - 52) (- 1074);
            sh = e - t;
            num = n * 2 ^ nat sh;
            den = d * 2 ^ nat (- sh);
            q = num div den;
            r = num mod den;
            q' = (if 2 * r < den \<or> (2 * r = den \<and> even q) then q else q + 1);
            m = (if q' = 2 ^ 53 then 2 ^ 52 else q');
            t' = (if q' = 2 ^ 53 then t + 1 else t)
        in if 971 < t' then Infty s else Fin s m t')"

text \<open>The signed integer \<open>(-1)^s * m * 2^(e - emin)\<close>, for \<open>emin \<le> e\<close>.\<close>

definition scaled :: "bool \<Rightarrow> int \<Rightarrow> int \<Rightarrow> int \<Rightarrow> int" where
  "scaled s m e emin = (if s then - 1 else 1) * m * 2 ^ nat (e - emin)"

fun f64_neg :: "float64 \<Rightarrow> float64" where
  "f64_neg NaN = NaN"
| "f64_neg (Infty s) = Infty (\<not> s)"
| "f64_neg (Fin s m e) = Fin (\<not> s) m e"

fun f64_add :: "float64 \<Rightarrow> float64 \<Rightarrow> float64" where
  "f64_add NaN y = NaN"
| "f64_add x NaN = NaN"
| "f64_add (Infty s) (Infty s') = (if s = s' then Infty s else NaN)"
| "f64_add (Infty s) (Fin s' m' e') = Infty s"
| "f64_add (Fin s m e) (Infty s') = Infty s'"
| "f64_add (Fin s m e) (Fin s' m' e') =
     (let emin = min e e';
          v = scaled s m e emin + scaled s' m' e' emin
      in if v = 0 then fzero (s \<and> s') else round_ratio (v < 0) \<bar>v\<bar> 1 emin)"

definition f64_sub :: "float64 \<Rightarrow> float64 \<Rightarrow> float64" where
  "f64_sub x y = f64_add x (f64_neg y)"

fun f64_mul :: "float64 \<Rightarrow> float64 \<Rightarrow> float64" where
  "f64_mul NaN y = NaN"
| "f64_mul x NaN = NaN"
| "f64_mul (Infty s) (Infty s') = Infty (s \<noteq> s')"
| "f64_mul (Infty s) (Fin s' m' e') = (if m' = 0 then NaN else Infty (s \<noteq> s'))"
| "f64_mul (Fin s m e) (Infty s') = (if m = 0 then NaN else Infty (s \<noteq> s'))"
| "f64_mul (Fin s m e) (Fin s' m' e') = round_ratio (s \<noteq> s') (m * m') 1 (e + e')"

fun f64_div :: "float64 \<Rightarrow> float64 \<Rightarrow> float64" where
  "f64_div NaN y = NaN"
| "f64_div x NaN = NaN"
| "f64_div (Infty s) (Infty s') = NaN"
| "f64_div (Infty s) (Fin s' m' e') = Infty (s \<noteq> s')"
| "f64_div (Fin s m e) (Infty s') = fzero (s \<noteq> s')"
| "f64_div (Fin s m e) (Fin s' m' e') =
     (if m' = 0 then (if m = 0 then NaN else Infty (s \<noteq> s'))
      else round_ratio (s \<noteq> s') m m' (e - e'))"

text \<open>
  \<open>math.Mod(x, y)\<close>: NaN when \<open>y\<close> is zero, \<open>x\<close> is infinite or either is NaN; \<open>x\<close> when
  \<open>y\<close> is infinite; otherwise the exact remainder of \<open>|x|\<close> by \<open>|y|\<close> with the sign of \<open>x\<close>.
\<close>

fun f64_mod :: "float64 \<Rightarrow> float64 \<Rightarrow> float64" where
  "f64_mod NaN y = NaN"
| "f64_mod x NaN = NaN"
| "f64_mod (Infty s) y = NaN"
| "f64_mod (Fin s m e) (Infty s') = Fin s m e"
| "f64_mod (Fin s m e) (Fin s' m' e') =
     (if m' = 0 then NaN
      else
        let emin = min e e';
            r = (m * 2 ^ nat (e - emin)) mod (m' * 2 ^ nat (e' - emin))
        in round_ratio s r 1 emin)"

fun f64_lt :: "float64 \<Rightarrow> float64 \<Rightarrow> bool" where
  "f64_lt NaN y = False"
| "f64_lt x NaN = False"
| "f64_lt (Infty s) (Infty s') = (s \<and> \<not> s')"
| "f64_lt (Infty s) (Fin s' m' e') = s"
| "f64_lt (Fin s m e) (Infty s') = (\<not> s')"
| "f64_lt (Fin s m e) (Fin s' m' e') =
     (scaled s m e (min e e') < scaled s' m' e' (min e e'))"

definition f64_gt :: "float64 \<Rightarrow> float64 \<Rightarrow> bool" where
  "f64_gt x y = f64_lt y x"

fun f64_eq :: "float64 \<Rightarrow> float64 \<Rightarrow> bool" where
  "f64_eq NaN y = False"
| "f64_eq x NaN = False"
| "f64_eq (Infty s) (Infty s') = (s = s')"
| "f64_eq (Infty s) (Fin s' m' e') = False"
| "f64_eq (Fin s m e) (Infty s') = False"
| "f64_eq (Fin s m e) (Fin s' m' e') =
     (scaled s m e (min e e') = scaled s' m' e' (min e e'))"

text \<open>The conversions \<open>float64(i)\<close> of a signed and of an unsigned integer.\<close>

definition f64_of_int :: "int \<Rightarrow> float64" where
  "f64_of_int i = round_ratio (i < 0) \<bar>i\<bar> 1 0"

definition f64_of_nat :: "nat \<Rightarrow> float64" where
  "f64_of_nat n = round_ratio False (int n) 1 0"


section \<open>Values and superpositions\<close>

text \<open>
  An \<open>interface{}\<close> operand or eigenstate is one of the variants of \<open>val\<close>. \<open>VInt\<close>
  holds a value of any of the signed integer types and \<open>VUint\<close> one of any of the
  unsigned integer types, each within the range of its type (\<open>getNumericValue\<close> widens
  them alike, and the conversion to float64 rounds any integer correctly); \<open>VFloat32\<close>
  holds the float64 that \<open>reflect.Value.Float\<close> returns for a float32; \<open>VSup\<close> is a
  \<open>*Superposition\<close> that is not nil, modelled by the struct it points to
  (superpositions are never mutated). The nil pointer of type \<open>*Superposition\<close> is not a
  value of \<open>val\<close>: it is the operand \<open>NilSuperposition\<close> of the section on operands
  below, where the panic it causes is modelled.
\<close>

datatype SuperpositionType = Disjunctive | Conjunctive

datatype val =
    VNil
  | VBool bool
  | VInt int
  | VUint nat
  | VFloat32 float64
  | VFloat64 float64
  | VString string
  | VSlice "val list"
  | VSup Superposition
and Superposition =
    Superposition (values': "val list") (typ': SuperpositionType)

text \<open>
  The kinds of \<open>reflect.Kind\<close> that the values above have; \<open>IntK\<close> stands for
  \<open>reflect.Int\<close>, \<open>Int8\<close>, ..., \<open>Int64\<close> and \<open>UintK\<close> for \<open>reflect.Uint\<close>,
  \<open>Uint8\<close>, ..., \<open>Uint64\<close>.
\<close>

datatype Kind =
  Invalid | Bool | IntK | UintK | Float32 | Float64 | String | Slice | Ptr

type_synonym error = string

definition Any :: "val list \<Rightarrow> Superposition" where
  "Any vs = Superposition vs Disjunctive"

definition All' :: "val list \<Rightarrow> Superposition" where
  "All' vs = Superposition vs Conjunctive"

fun getNumericValue :: "val \<Rightarrow> float64 \<times> Kind" where
  "getNumericValue (VInt i) = (f64_of_int i, IntK)"
| "getNumericValue (VUint n) = (f64_of_nat n, UintK)"
| "getNumericValue (VFloat32 x) = (x, Float32)"
| "getNumericValue (VFloat64 x) = (x, Float64)"
| "getNumericValue v = (fzero False, Invalid)"

definition performArithmetic :: "val \<Rightarrow> val \<Rightarrow> char \<Rightarrow> error + val" where
  "performArithmetic a b op =
     (case getNumericValue a of (aVal, aKind) \<Rightarrow>
      case getNumericValue b of (bVal, bKind) \<Rightarrow>
        if aKind = Invalid \<or> bKind = Invalid
        then Inl ''unsupported type in arithmetic operation''
        else if op = CHR ''+'' then Inr (VFloat64 (f64_add aVal bVal))
        else if op = CHR ''-'' then Inr (VFloat64 (f64_sub aVal bVal))
        else if op = CHR ''*'' then Inr (VFloat64 (f64_mul aVal bVal))
        else if op = CHR ''/'' then
          (if f64_eq bVal (fzero False) then Inl ''division by zero''
           else Inr (VFloat64 (f64_div aVal bVal)))
        else if op = CHR ''%'' then
          (if f64_eq bVal (fzero False) then Inl ''modulo by zero''
           else Inr (VFloat64 (f64_mod aVal bVal)))
        else Inl ''unsupported operation'')"

definition performComparison :: "val \<Rightarrow> val \<Rightarrow> char \<Rightarrow> error + bool" where
  "performComparison a b op =
     (case getNumericValue a of (aVal, aKind) \<Rightarrow>
      case getNumericValue b of (bVal, bKind) \<Rightarrow>
        if aKind = Invalid \<or> bKind = Invalid
        then Inl ''unsupported type in comparison''
        else if op = CHR ''<'' then Inr (f64_lt aVal bVal)
        else if op = CHR ''>'' then Inr (f64_gt aVal bVal)
        else if op = CHR ''='' then Inr (f64_eq aVal bVal)
        else Inl ''unsupported comparison'')"

definition addValues :: "val \<Rightarrow> val \<Rightarrow> error + val" where
  "addValues a b = performArithmetic a b CHR ''+''"

definition subValues :: "val \<Rightarrow> val \<Rightarrow> error + val" where
  "subValues a b = performArithmetic a b CHR ''-''"

definition mulValues :: "val \<Rightarrow> val \<Rightarrow> error + val" where
  "mulValues a b = performArithmetic a b CHR ''*''"

definition divValues :: "val \<Rightarrow> val \<Rightarrow> error + val" where
  "divValues a b = performArithmetic a b CHR ''/''"

definition modValues :: "val \<Rightarrow> val \<Rightarrow> error + val" where
  "modValues a b = performArithmetic a b CHR ''%''"

definition lessThanValues :: "val \<Rightarrow> val \<Rightarrow> error + bool" where
  "lessThanValues a b = performComparison a b CHR ''<''"

definition greaterThanValues :: "val \<Rightarrow> val \<Rightarrow> error + bool" where
  "greaterThanValues a b = performComparison a b CHR ''>''"

definition equalToValues :: "val \<Rightarrow> val \<Rightarrow> error + bool" where
  "equalToValues a b = performComparison a b CHR ''=''"

fun extractValues :: "val \<Rightarrow> val list \<times> SuperpositionType" where
  "extractValues (VSup s) = (values' s, typ' s)"
| "extractValues v = ([v], Disjunctive)"

text \<open>
  The two loops of \<open>combineValues\<close>, with \<open>resultValues\<close> as the accumulator: an
  error of \<open>op\<close> is the \<open>continue\<close>, a result is appended.
\<close>

fun combine_inner ::
  "(val \<Rightarrow> val \<Rightarrow> error + val) \<Rightarrow> val \<Rightarrow> val list \<Rightarrow> val list \<Rightarrow> val list" where
  "combine_inner op av [] resultValues = resultValues"
| "combine_inner op av (bv # bvs) resultValues =
     (case op av bv of
        Inl err \<Rightarrow> combine_inner op av bvs resultValues
      | Inr res \<Rightarrow> combine_inner op av bvs (resultValues @ [res]))"

fun combine_outer ::
  "(val \<Rightarrow> val \<Rightarrow> error + val) \<Rightarrow> val list \<Rightarrow> val list \<Rightarrow> val list \<Rightarrow> val list" where
  "combine_outer op [] bValues resultValues = resultValues"
| "combine_outer op (av # avs) bValues resultValues =
     combine_outer op avs bValues (combine_inner op av bValues resultValues)"

definition combineValues ::
  "val \<Rightarrow> val \<Rightarrow> (val \<Rightarrow> val \<Rightarrow> error + val) \<Rightarrow> val list \<times> SuperpositionType" where
  "combineValues a b op =
     (case extractValues a of (aValues, aTyp) \<Rightarrow>
      case extractValues b of (bValues, bTyp) \<Rightarrow>
        (combine_outer op aValues bValues [],
         if aTyp = Conjunctive \<or> bTyp = Conjunctive then Conjunctive else Disjunctive))"

text \<open>
  The inner loop of \<open>compareValues\<close>, with the variable \<open>match\<close> as state: an error
  of \<open>comp'\<close> is the \<open>continue\<close>; a true verdict sets \<open>match\<close> and breaks; a false
  verdict breaks when \<open>bTyp\<close> is \<open>Conjunctive\<close> and goes on otherwise.
\<close>

fun compare_inner ::
  "(val \<Rightarrow> val \<Rightarrow> error + bool) \<Rightarrow> SuperpositionType \<Rightarrow> val \<Rightarrow> val list \<Rightarrow> bool \<Rightarrow> bool" where
  "compare_inner comp' bTyp av [] match = match"
| "compare_inner comp' bTyp av (bv # bvs) match =
     (case comp' av bv of
        Inl err \<Rightarrow> compare_inner comp' bTyp av bvs match
      | Inr res \<Rightarrow>
          if res then True
          else if bTyp = Conjunctive then False
          else compare_inner comp' bTyp av bvs match)"

fun compare_outer ::
  "(val \<Rightarrow> val \<Rightarrow> error + bool) \<Rightarrow> SuperpositionType \<Rightarrow> val list \<Rightarrow> val list \<Rightarrow> val list
     \<Rightarrow> val list" where
  "compare_outer comp' bTyp [] bValues resultValues = resultValues"
| "compare_outer comp' bTyp (av # avs) bValues resultValues =
     compare_outer comp' bTyp avs bValues
       (if compare_inner comp' bTyp av bValues False then resultValues @ [av]
        else resultValues)"

definition compareValues ::
  "val \<Rightarrow> val \<Rightarrow> (val \<Rightarrow> val \<Rightarrow> error + bool) \<Rightarrow> val list \<times> SuperpositionType" where
  "compareValues a b comp' =
     (case extractValues a of (aValues, aTyp) \<Rightarrow>
      case extractValues b of (bValues, bTyp) \<Rightarrow>
        (compare_outer comp' bTyp aValues bValues [], aTyp))"

definition Add :: "val \<Rightarrow> val \<Rightarrow> Superposition" where
  "Add a b =
     (case combineValues a b addValues of (resultValues, resultTyp) \<Rightarrow>
        Superposition resultValues resultTyp)"

definition Subtract :: "val \<Rightarrow> val \<Rightarrow> Superposition" where
  "Subtract a b =
     (case combineValues a b subValues of (resultValues, resultTyp) \<Rightarrow>
        Superposition resultValues resultTyp)"

definition Multiply :: "val \<Rightarrow> val \<Rightarrow> Superposition" where
  "Multiply a b =
     (case combineValues a b mulValues of (resultValues, resultTyp) \<Rightarrow>
        Superposition resultValues resultTyp)"

definition Divide :: "val \<Rightarrow> val \<Rightarrow> Superposition" where
  "Divide a b =
     (case combineValues a b divValues of (resultValues, resultTyp) \<Rightarrow>
        Superposition resultValues resultTyp)"

definition Modulo :: "val \<Rightarrow> val \<Rightarrow> Superposition" where
  "Modulo a b =
     (case combineValues a b modValues of (resultValues, resultTyp) \<Rightarrow>
        Superposition resultValues resultTyp)"

definition LessThan :: "val \<Rightarrow> val \<Rightarrow> Superposition" where
  "LessThan a b =
     (case compareValues a b lessThanValues of (resultValues, resultTyp) \<Rightarrow>
        Superposition resultValues resultTyp)"

definition GreaterThan :: "val \<Rightarrow> val \<Rightarrow> Superposition" where
  "GreaterThan a b =
     (case compareValues a b greaterThanValues of (resultValues, resultTyp) \<Rightarrow>
        Superposition resultValues resultTyp)"

definition EqualTo :: "val \<Rightarrow> val \<Rightarrow> Superposition" where
  "EqualTo a b =
     (case compareValues a b equalToValues of (resultValues, resultTyp) \<Rightarrow>
        Superposition resultValues resultTyp)"

definition IsTrue :: "Superposition \<Rightarrow> bool" where
  "IsTrue s = (if length (values' s) = 0 then False else True)"

definition Eigenstates :: "Superposition \<Rightarrow> val list" where
  "Eigenstates s = values' s"


section \<open>Operands that may be the nil pointer\<close>

text \<open>
  An \<open>interface{}\<close> operand can also hold the nil pointer of type \<open>*Superposition\<close>.
  The type assertion in \<open>extractValues\<close> succeeds on it, and reading \<open>s.values\<close> then
  panics with a nil dereference, which leaves \<open>combineValues\<close> and the operation that
  called it. \<open>operand\<close> adds this pointer to the values of \<open>val\<close>; the functions below
  are \<open>extractValues\<close>, \<open>combineValues\<close> and the five arithmetic operations on such
  operands, the panic being the \<open>Inl\<close> result. On every other operand they run the code
  modelled above.
\<close>

datatype panic = NilDereference

datatype operand = NilSuperposition | Operand val

fun extractValues_operand :: "operand \<Rightarrow> panic + val list \<times> SuperpositionType" where
  "extractValues_operand NilSuperposition = Inl NilDereference"
| "extractValues_operand (Operand v) = Inr (extractValues v)"

definition combineValues_operand ::
  "operand \<Rightarrow> operand \<Rightarrow> (val \<Rightarrow> val \<Rightarrow> error + val) \<Rightarrow> panic + val list \<times> SuperpositionType" where
  "combineValues_operand a b op =
     (case extractValues_operand a of
        Inl p \<Rightarrow> Inl p
      | Inr (aValues, aTyp) \<Rightarrow>
          (case extractValues_operand b of
             Inl p \<Rightarrow> Inl p
           | Inr (bValues, bTyp) \<Rightarrow>
               Inr (combine_outer op aValues bValues [],
                    if aTyp = Conjunctive \<or> bTyp = Conjunctive then Conjunctive
                    else Disjunctive)))"

definition Add_operand :: "operand \<Rightarrow> operand \<Rightarrow> panic + Superposition" where
  "Add_operand a b =
     (case combineValues_operand a b addValues of
        Inl p \<Rightarrow> Inl p
      | Inr (resultValues, resultTyp) \<Rightarrow> Inr (Superposition resultValues resultTyp))"

definition Subtract_operand :: "operand \<Rightarrow> operand \<Rightarrow> panic + Superposition" where
  "Subtract_operand a b =
     (case combineValues_operand a b subValues of
        Inl p \<Rightarrow> Inl p
      | Inr (resultValues, resultTyp) \<Rightarrow> Inr (Superposition resultValues resultTyp))"

definition Multiply_operand :: "operand \<Rightarrow> operand \<Rightarrow> panic + Superposition" where
  "Multiply_operand a b =
     (case combineValues_operand a b mulValues of
        Inl p \<Rightarrow> Inl p
      | Inr (resultValues, resultTyp) \<Rightarrow> Inr (Superposition resultValues resultTyp))"

definition Divide_operand :: "operand \<Rightarrow> operand \<Rightarrow> panic + Superposition" where
  "Divide_operand a b =
     (case combineValues_operand a b divValues of
        Inl p \<Rightarrow> Inl p
      | Inr (resultValues, resultTyp) \<Rightarrow> Inr (Superposition resultValues resultTyp))"

definition Modulo_operand :: "operand \<Rightarrow> operand \<Rightarrow> panic + Superposition" where
  "Modulo_operand a b =
     (case combineValues_operand a b modValues of
        Inl p \<Rightarrow> Inl p
      | Inr (resultValues, resultTyp) \<Rightarrow> Inr (Superposition resultValues resultTyp))"


section \<open>The operations and what the specification says of them\<close>

text \<open>
  The five arithmetic operations with the operator rune each passes to
  \<open>performArithmetic\<close>, and the three filtering operations with the rune each passes
  to \<open>performComparison\<close>.
\<close>

definition arithmetic_ops :: "((val \<Rightarrow> val \<Rightarrow> Superposition) \<times> char) list" where
  "arithmetic_ops =
     [(Add, CHR ''+''), (Subtract, CHR ''-''), (Multiply, CHR ''*''),
      (Divide, CHR ''/''), (Modulo, CHR ''%'')]"

text \<open>The same five operations on operands that may be the nil pointer.\<close>

definition arithmetic_calls :: "((operand \<Rightarrow> operand \<Rightarrow> panic + Superposition) \<times> char) list" where
  "arithmetic_calls =
     [(Add_operand, CHR ''+''), (Subtract_operand, CHR ''-''), (Multiply_operand, CHR ''*''),
      (Divide_operand, CHR ''/''), (Modulo_operand, CHR ''%'')]"

definition filter_ops :: "((val \<Rightarrow> val \<Rightarrow> Superposition) \<times> char) list" where
  "filter_ops = [(LessThan, CHR ''<''), (GreaterThan, CHR ''>''), (EqualTo, CHR ''='')]"

text \<open>
  The specification's result of a combination: the successful per-pair results of the
  cross product, the left values outermost, the right values innermost, nothing removed.
\<close>

definition pair_results :: "(val \<Rightarrow> val \<Rightarrow> error + val) \<Rightarrow> val \<Rightarrow> val list \<Rightarrow> val list" where
  "pair_results op av bValues =
     concat (map (\<lambda>bv. case op av bv of Inl err \<Rightarrow> [] | Inr res \<Rightarrow> [res]) bValues)"

definition cross_results ::
  "(val \<Rightarrow> val \<Rightarrow> error + val) \<Rightarrow> val list \<Rightarrow> val list \<Rightarrow> val list" where
  "cross_results op aValues bValues = concat (map (\<lambda>av. pair_results op av bValues) aValues)"

text \<open>
  The specification's excluded pair: either operand fails numeric coercion, or the
  operator is division or modulo and the divisor coerces to zero.
\<close>

definition excluded :: "char \<Rightarrow> val \<Rightarrow> val \<Rightarrow> bool" where
  "excluded c av bv =
     (snd (getNumericValue av) = Invalid \<or> snd (getNumericValue bv) = Invalid \<or>
      ((c = CHR ''/'' \<or> c = CHR ''%'') \<and> f64_eq (fst (getNumericValue bv)) (fzero False)))"

text \<open>Numeric equality of two stored values, as \<open>EqualTo\<close> decides it.\<close>

definition numeric_eq :: "val \<Rightarrow> val \<Rightarrow> bool" where
  "numeric_eq a b =
     (snd (getNumericValue a) \<noteq> Invalid \<and> snd (getNumericValue b) \<noteq> Invalid \<and>
      f64_eq (fst (getNumericValue a)) (fst (getNumericValue b)))"


section \<open>The loops in closed form\<close>

lemma combine_inner_append:
  "combine_inner op av bvs acc = acc @ pair_results op av bvs"
  by (induction bvs arbitrary: acc) (auto simp: pair_results_def split: sum.splits)

lemma combine_outer_append:
  "combine_outer op avs bvs acc = acc @ cross_results op avs bvs"
  by (induction avs arbitrary: acc) (auto simp: cross_results_def combine_inner_append)

lemma combineValues_eq:
  "combineValues a b op =
     (cross_results op (fst (extractValues a)) (fst (extractValues b)),
      if snd (extractValues a) = Conjunctive \<or> snd (extractValues b) = Conjunctive
      then Conjunctive else Disjunctive)"
  by (simp add: combineValues_def combine_outer_append split: prod.splits)

lemma arithmetic_ops_combine:
  "(f, c) \<in> set arithmetic_ops \<Longrightarrow>
     f a b = Superposition (fst (combineValues a b (\<lambda>x y. performArithmetic x y c)))
                           (snd (combineValues a b (\<lambda>x y. performArithmetic x y c)))"
  unfolding arithmetic_ops_def Add_def Subtract_def Multiply_def Divide_def Modulo_def
    addValues_def subValues_def mulValues_def divValues_def modValues_def
  by (auto split: prod.splits)

lemma arithmetic_ops_chars:
  "(f, c) \<in> set arithmetic_ops \<Longrightarrow>
     c = CHR ''+'' \<or> c = CHR ''-'' \<or> c = CHR ''*'' \<or> c = CHR ''/'' \<or> c = CHR ''%''"
  by (auto simp: arithmetic_ops_def)

lemma pair_results_length:
  "\<forall>bv\<in>set bvs. \<not> isl (op av bv) \<Longrightarrow> length (pair_results op av bvs) = length bvs"
  by (induction bvs) (auto simp: pair_results_def split: sum.splits)

lemma cross_results_length:
  "\<forall>av\<in>set avs. \<forall>bv\<in>set bvs. \<not> isl (op av bv) \<Longrightarrow>
     length (cross_results op avs bvs) = length avs * length bvs"
proof (induction avs)
  case Nil
  show ?case by (simp add: cross_results_def)
next
  case (Cons av avs)
  have "length (pair_results op av bvs) = length bvs"
    using Cons.prems by (intro pair_results_length) simp
  moreover have "length (cross_results op avs bvs) = length avs * length bvs"
    using Cons by simp
  ultimately show ?case by (simp add: cross_results_def)
qed

lemma pair_results_product:
  "pair_results op av bvs =
     map (\<lambda>(x, y). projr (op x y)) (filter (\<lambda>(x, y). \<not> isl (op x y)) (map (Pair av) bvs))"
  by (induction bvs) (auto simp: pair_results_def split: sum.splits)

lemma cross_results_product:
  "cross_results op avs bvs =
     map (\<lambda>(x, y). projr (op x y)) (filter (\<lambda>(x, y). \<not> isl (op x y)) (List.product avs bvs))"
  by (induction avs) (simp_all add: cross_results_def pair_results_product)

lemma pair_results_set:
  "set (pair_results op av bvs) = {r. \<exists>bv\<in>set bvs. op av bv = Inr r}"
  by (induction bvs) (auto simp: pair_results_def split: sum.splits)

lemma cross_results_set:
  "set (cross_results op avs bvs) = {r. \<exists>av\<in>set avs. \<exists>bv\<in>set bvs. op av bv = Inr r}"
  by (auto simp: cross_results_def pair_results_set)

lemma performArithmetic_isl:
  assumes "c = CHR ''+'' \<or> c = CHR ''-'' \<or> c = CHR ''*'' \<or> c = CHR ''/'' \<or> c = CHR ''%''"
  shows "isl (performArithmetic av bv c) = excluded c av bv"
  using assms by (auto simp: performArithmetic_def excluded_def split: prod.splits)

lemma performArithmetic_Float64:
  "performArithmetic av bv c = Inr r \<Longrightarrow> \<exists>x. r = VFloat64 x"
  by (auto simp: performArithmetic_def split: prod.splits if_splits)

lemma compare_outer_append:
  "compare_outer comp' bTyp avs bvs acc =
     acc @ filter (\<lambda>av. compare_inner comp' bTyp av bvs False) avs"
  by (induction avs arbitrary: acc) auto

lemma compareValues_eq:
  "compareValues a b comp' =
     (filter (\<lambda>av. compare_inner comp' (snd (extractValues b)) av (fst (extractValues b)) False)
        (fst (extractValues a)),
      snd (extractValues a))"
  by (simp add: compareValues_def compare_outer_append split: prod.splits)

lemma filter_ops_compare:
  "(f, c) \<in> set filter_ops \<Longrightarrow>
     f a b = Superposition (fst (compareValues a b (\<lambda>x y. performComparison x y c)))
                           (snd (compareValues a b (\<lambda>x y. performComparison x y c)))"
  unfolding filter_ops_def LessThan_def GreaterThan_def EqualTo_def
    lessThanValues_def greaterThanValues_def equalToValues_def
  by (auto split: prod.splits)

lemma compare_inner_Disjunctive:
  "compare_inner comp' Disjunctive av bvs m = (m \<or> (\<exists>bv\<in>set bvs. comp' av bv = Inr True))"
  by (induction bvs) (auto split: sum.splits)

lemma compare_inner_no_verdict:
  "\<forall>bv\<in>set bvs. isl (comp' av bv) \<Longrightarrow> compare_inner comp' bTyp av bvs m = m"
  by (induction bvs) (auto split: sum.splits)

text \<open>
  With a conjunctive right operand the loop leaves at the first verdict, true or false:
  the verdict of the first right value that coerces decides.
\<close>

lemma compare_inner_Conjunctive:
  "compare_inner comp' Conjunctive av bvs m =
     (case filter (\<lambda>bv. \<not> isl (comp' av bv)) bvs of
        [] \<Rightarrow> m
      | bv # rest \<Rightarrow> projr (comp' av bv))"
  by (induction bvs) (auto split: sum.splits)

lemma performComparison_isl:
  assumes "c = CHR ''<'' \<or> c = CHR ''>'' \<or> c = CHR ''=''"
  shows "isl (performComparison av bv c) =
           (snd (getNumericValue av) = Invalid \<or> snd (getNumericValue bv) = Invalid)"
  using assms by (auto simp: performComparison_def split: prod.splits)

lemma filter_ops_chars:
  "(f, c) \<in> set filter_ops \<Longrightarrow> c = CHR ''<'' \<or> c = CHR ''>'' \<or> c = CHR ''=''"
  by (auto simp: filter_ops_def)

lemma filter_ops_Eigenstates:
  "(f, c) \<in> set filter_ops \<Longrightarrow>
     Eigenstates (f a b) =
       filter (\<lambda>av. compare_inner (\<lambda>x y. performComparison x y c) (snd (extractValues b)) av
                       (fst (extractValues b)) False)
         (fst (extractValues a))"
  by (simp add: filter_ops_compare compareValues_eq Eigenstates_def)


section \<open>The arithmetic operations on operands that may be the nil pointer\<close>

lemma combineValues_operand_Operand:
  "combineValues_operand (Operand a) (Operand b) op = Inr (combineValues a b op)"
  by (simp add: combineValues_operand_def combineValues_def split: prod.splits)

lemma combineValues_operand_nil_left:
  "combineValues_operand NilSuperposition y op = Inl NilDereference"
  by (simp add: combineValues_operand_def)

lemma combineValues_operand_nil_right:
  "combineValues_operand x NilSuperposition op = Inl NilDereference"
  by (cases x) (simp_all add: combineValues_operand_def split: prod.splits)

lemma arithmetic_operand_Operand:
  "Add_operand (Operand a) (Operand b) = Inr (Add a b)"
  "Subtract_operand (Operand a) (Operand b) = Inr (Subtract a b)"
  "Multiply_operand (Operand a) (Operand b) = Inr (Multiply a b)"
  "Divide_operand (Operand a) (Operand b) = Inr (Divide a b)"
  "Modulo_operand (Operand a) (Operand b) = Inr (Modulo a b)"
  by (simp_all add: Add_operand_def Subtract_operand_def Multiply_operand_def
      Divide_operand_def Modulo_operand_def Add_def Subtract_def Multiply_def Divide_def
      Modulo_def combineValues_operand_Operand split: prod.splits)

lemma arithmetic_calls_cases:
  assumes "(g, c) \<in> set arithmetic_calls"
  shows "(g = Add_operand \<and> c = CHR ''+'') \<or> (g = Subtract_operand \<and> c = CHR ''-'') \<or>
         (g = Multiply_operand \<and> c = CHR ''*'') \<or> (g = Divide_operand \<and> c = CHR ''/'') \<or>
         (g = Modulo_operand \<and> c = CHR ''%'')"
  using assms unfolding arithmetic_calls_def by (simp only: list.set insert_iff empty_iff prod.inject) blast

lemma arithmetic_calls_ops:
  assumes "(g, c) \<in> set arithmetic_calls"
  shows "\<exists>f. (f, c) \<in> set arithmetic_ops \<and> (\<forall>a b. g (Operand a) (Operand b) = Inr (f a b))"
proof -
  have m: "(Add, CHR ''+'') \<in> set arithmetic_ops" "(Subtract, CHR ''-'') \<in> set arithmetic_ops"
    "(Multiply, CHR ''*'') \<in> set arithmetic_ops" "(Divide, CHR ''/'') \<in> set arithmetic_ops"
    "(Modulo, CHR ''%'') \<in> set arithmetic_ops"
    by (simp_all add: arithmetic_ops_def)
  from arithmetic_calls_cases [OF assms] show ?thesis
    using m arithmetic_operand_Operand by (elim disjE conjE) blast+
qed

lemma arithmetic_calls_nil:
  assumes "(g, c) \<in> set arithmetic_calls"
  shows "g NilSuperposition y = Inl NilDereference \<and> g x NilSuperposition = Inl NilDereference"
  using arithmetic_calls_cases [OF assms]
  by (elim disjE conjE)
    (simp_all add: Add_operand_def Subtract_operand_def Multiply_operand_def Divide_operand_def
      Modulo_operand_def combineValues_operand_nil_left combineValues_operand_nil_right)


lemma arithmetic_ops_exclusion:
  assumes mem: "(f, c) \<in> set arithmetic_ops"
  shows "Eigenstates (f a b) =
        map (\<lambda>(av, bv). projr (performArithmetic av bv c))
          (filter (\<lambda>(av, bv). \<not> excluded c av bv)
             (List.product (fst (extractValues a)) (fst (extractValues b))))"
proof -
  have isl: "isl (performArithmetic av bv c) = excluded c av bv" for av bv
    by (rule performArithmetic_isl [OF arithmetic_ops_chars [OF mem]])
  have "Eigenstates (f a b) =
        cross_results (\<lambda>x y. performArithmetic x y c)
          (fst (extractValues a)) (fst (extractValues b))"
    by (simp add: arithmetic_ops_combine [OF mem] combineValues_eq Eigenstates_def)
  then show ?thesis
    by (simp add: cross_results_product isl)
qed


section \<open>Integers that float64 holds exactly\<close>

text \<open>
  An integer of magnitude at most \<open>2^53\<close> is converted without rounding, so two such
  integers are equal as float64 values only when they are equal.
\<close>

lemma bitlen_one: "bitlen 1 = 1"
  by (simp add: bitlen_alt_def)

lemma round_ratio_unfold:
  assumes "n \<noteq> 0"
    and "k = bitlen n - bitlen d"
    and "l = (if d * 2 ^ nat k \<le> n * 2 ^ nat (- k) then k else k - 1)"
    and "t = max (l + e - 52) (- 1074)"
    and "num = n * 2 ^ nat (e - t)"
    and "den = d * 2 ^ nat (- (e - t))"
    and "q' = (if 2 * (num mod den) < den \<or> (2 * (num mod den) = den \<and> even (num div den))
               then num div den else num div den + 1)"
  shows "round_ratio s n d e =
           (if 971 < (if q' = 2 ^ 53 then t + 1 else t) then Infty s
            else Fin s (if q' = 2 ^ 53 then 2 ^ 52 else q') (if q' = 2 ^ 53 then t + 1 else t))"
  unfolding round_ratio_def Let_def assms(2-) using assms(1) by (simp only: if_False)


lemma round_ratio_small:
  assumes n: "0 < n" "n < 2 ^ 53"
  shows "round_ratio s n 1 0 = Fin s (n * 2 ^ nat (53 - bitlen n)) (bitlen n - 53)"
proof -
  define b where "b = bitlen n"
  define q where "q = n * 2 ^ nat (53 - b)"
  have lo: "2 ^ nat (b - 1) \<le> n" and hi: "n < 2 ^ nat b"
    using bitlen_bounds [OF n(1)] by (simp_all add: b_def)
  have b1: "1 \<le> b"
    using n(1) bitlen_eq_zero_iff [of n] bitlen_nonneg [of n] by (simp add: b_def)
  have "(2::int) ^ nat (b - 1) < 2 ^ 53" using lo n(2) by simp
  then have "nat (b - 1) < 53" by (rule power_less_imp_less_exp [rotated]) simp
  then have b53: "b \<le> 53" by simp
  have "nat b + nat (53 - b) = 53" using b1 b53 by simp
  then have p53: "(2::int) ^ nat b * 2 ^ nat (53 - b) = 2 ^ 53"
    by (simp only: power_add [symmetric])
  have "n * 2 ^ nat (53 - b) < 2 ^ nat b * 2 ^ nat (53 - b)"
    using hi by (intro mult_strict_right_mono) simp_all
  then have lt: "q < 2 ^ 53" unfolding p53 q_def .
  have n0: "n \<noteq> 0" using n(1) by simp
  have k: "b - 1 = bitlen n - bitlen 1" by (simp add: b_def bitlen_one)
  have "nat (- (b - 1)) = 0" using b1 by simp
  then have l: "b - 1 = (if 1 * 2 ^ nat (b - 1) \<le> n * 2 ^ nat (- (b - 1)) then b - 1 else b - 1 - 1)"
    using lo by simp
  have t: "b - 53 = max (b - 1 + 0 - 52) (- 1074)" using b1 by simp
  have num: "q = n * 2 ^ nat (0 - (b - 53))" by (simp add: q_def)
  have "nat (- (0 - (b - 53))) = 0" using b53 by simp
  then have den: "1 = 1 * (2::int) ^ nat (- (0 - (b - 53)))" by simp
  have q': "q = (if 2 * (q mod 1) < 1 \<or> (2 * (q mod 1) = 1 \<and> even (q div 1))
               then q div 1 else q div 1 + 1)" by simp
  have "round_ratio s n 1 0 =
           (if 971 < (if q = 2 ^ 53 then b - 53 + 1 else b - 53) then Infty s
            else Fin s (if q = 2 ^ 53 then 2 ^ 52 else q) (if q = 2 ^ 53 then b - 53 + 1 else b - 53))"
    by (rule round_ratio_unfold [OF n0 k l t num den q'])
  moreover have "q \<noteq> 2 ^ 53" using lt by simp
  moreover have "\<not> 971 < b - 53" using b53 by simp
  ultimately have "round_ratio s n 1 0 = Fin s q (b - 53)" by (simp only: if_False)
  then show ?thesis by (simp only: q_def b_def)
qed


lemma round_ratio_2_53: "round_ratio s (2 ^ 53) 1 0 = Fin s (2 ^ 52) 1"
  by code_simp

lemma round_ratio_int_repr:
  assumes n: "0 < n" "n \<le> 2 ^ 53"
  shows "\<exists>m e. round_ratio s n 1 0 = Fin s m e \<and> 0 < m \<and> - 52 \<le> e \<and>
           m * 2 ^ nat (e + 52) = n * 2 ^ 52"
proof (cases "n = 2 ^ 53")
  case True
  have "(2::int) ^ 52 * 2 ^ nat (1 + 52) = 2 ^ 53 * 2 ^ 52" by simp
  then show ?thesis unfolding True round_ratio_2_53 by simp
next
  case False
  then have lt: "n < 2 ^ 53" using n(2) by simp
  define b where "b = bitlen n"
  have lo: "2 ^ nat (b - 1) \<le> n"
    using bitlen_bounds [OF n(1)] by (simp_all add: b_def)
  have b1: "1 \<le> b"
    using n(1) bitlen_eq_zero_iff [of n] bitlen_nonneg [of n] by (simp add: b_def)
  have "(2::int) ^ nat (b - 1) < 2 ^ 53" using lo lt by simp
  then have "nat (b - 1) < 53" by (rule power_less_imp_less_exp [rotated]) simp
  then have b53: "b \<le> 53" by simp
  have "nat (53 - b) + nat (b - 53 + 52) = 52" using b1 b53 by simp
  then have "(2::int) ^ nat (53 - b) * 2 ^ nat (b - 53 + 52) = 2 ^ 52"
    by (simp only: power_add [symmetric])
  then have "n * 2 ^ nat (53 - b) * 2 ^ nat (b - 53 + 52) = n * 2 ^ 52"
    by (simp only: mult.assoc)
  moreover have "0 < n * 2 ^ nat (53 - b)" using n(1) by simp
  moreover have "- 52 \<le> b - 53" using b1 by simp
  ultimately show ?thesis
    unfolding round_ratio_small [OF n(1) lt] b_def by blast
qed

lemma scaled_cancel:
  assumes "emin \<le> e" "- 52 \<le> emin"
  shows "scaled s m e emin * 2 ^ nat (emin + 52) = (if s then - 1 else 1) * (m * 2 ^ nat (e + 52))"
proof -
  have "nat (e - emin) + nat (emin + 52) = nat (e + 52)" using assms by simp
  then have "(2::int) ^ nat (e - emin) * 2 ^ nat (emin + 52) = 2 ^ nat (e + 52)"
    by (simp only: power_add [symmetric])
  then have "(if s then - 1 else 1) * m * 2 ^ nat (e - emin) * 2 ^ nat (emin + 52) =
             (if s then - 1 else 1) * (m * 2 ^ nat (e + 52))"
    by (simp only: mult.assoc)
  then show ?thesis by (simp only: scaled_def)
qed

lemma f64_eq_of_int:
  assumes "\<bar>i\<bar> \<le> 2 ^ 53" "\<bar>j\<bar> \<le> 2 ^ 53"
  shows "f64_eq (f64_of_int i) (f64_of_int j) = (i = j)"
proof -
  have zero: "f64_of_int 0 = Fin False 0 (- 1074)"
    by (simp add: f64_of_int_def round_ratio_def fzero_def)
  have repr: "\<exists>m e. f64_of_int x = Fin (x < 0) m e \<and> 0 < m \<and> - 52 \<le> e \<and>
                (if x < 0 then - 1 else 1) * (m * 2 ^ nat (e + 52)) = x * 2 ^ 52"
    if "x \<noteq> 0" "\<bar>x\<bar> \<le> 2 ^ 53" for x
  proof -
    have "0 < \<bar>x\<bar>" using that(1) by simp
    from round_ratio_int_repr [OF this that(2), of "x < 0"]
    obtain m e where "round_ratio (x < 0) \<bar>x\<bar> 1 0 = Fin (x < 0) m e" "0 < m" "- 52 \<le> e"
      "m * 2 ^ nat (e + 52) = \<bar>x\<bar> * 2 ^ 52" by blast
    then show ?thesis unfolding f64_of_int_def by (intro exI [of _ m] exI [of _ e]) auto
  qed
  show ?thesis
  proof (cases "i = 0")
    case i0: True
    show ?thesis
    proof (cases "j = 0")
      case True
      with i0 show ?thesis by (simp add: zero scaled_def)
    next
      case False
      from repr [OF False assms(2)] obtain m e where
        "f64_of_int j = Fin (j < 0) m e" "0 < m" by blast
      with i0 False show ?thesis by (simp add: zero scaled_def)
    qed
  next
    case i1: False
    from repr [OF i1 assms(1)] obtain m e where
      fi: "f64_of_int i = Fin (i < 0) m e" and m: "0 < m" and e: "- 52 \<le> e"
      and vi: "(if i < 0 then - 1 else 1) * (m * 2 ^ nat (e + 52)) = i * 2 ^ 52" by blast
    show ?thesis
    proof (cases "j = 0")
      case True
      with i1 m show ?thesis by (simp add: zero fi scaled_def)
    next
      case False
      from repr [OF False assms(2)] obtain m' e' where
        fj: "f64_of_int j = Fin (j < 0) m' e'" and e': "- 52 \<le> e'"
        and vj: "(if j < 0 then - 1 else 1) * (m' * 2 ^ nat (e' + 52)) = j * 2 ^ 52" by blast
      define emin where "emin = min e e'"
      have le: "emin \<le> e" "emin \<le> e'" "- 52 \<le> emin" using e e' by (simp_all add: emin_def)
      have si: "scaled (i < 0) m e emin * 2 ^ nat (emin + 52) = i * 2 ^ 52"
        using scaled_cancel [OF le(1) le(3)] vi by simp
      have sj: "scaled (j < 0) m' e' emin * 2 ^ nat (emin + 52) = j * 2 ^ 52"
        using scaled_cancel [OF le(2) le(3)] vj by simp
      have "(scaled (i < 0) m e emin = scaled (j < 0) m' e' emin) =
            (scaled (i < 0) m e emin * 2 ^ nat (emin + 52) =
             scaled (j < 0) m' e' emin * 2 ^ nat (emin + 52))"
        by simp
      also have "\<dots> = (i = j)" unfolding si sj by simp
      finally show ?thesis by (simp add: fi fj emin_def)
    qed
  qed
qed


section \<open>Truth evaluation\<close>

text \<open>
  Claim C7. For a superposition of either mode, \<open>IsTrue\<close> holds exactly when the value
  sequence is not empty (equivalently, when \<open>Eigenstates\<close> has positive length); the
  mode tag and the stored values themselves are never consulted.
\<close>

theorem IsTrue_iff_nonempty:
  "IsTrue (Superposition vs t) = (vs \<noteq> []) \<and>
   IsTrue s = (0 < length (Eigenstates s)) \<and>
   IsTrue (Any vs) = IsTrue (All' vs)"
  by (simp add: IsTrue_def Eigenstates_def Any_def All'_def)


section \<open>Combination engine\<close>

text \<open>
  Claim C2. For every pair of operands and each of \<open>Add\<close>, \<open>Subtract\<close>, \<open>Multiply\<close>,
  \<open>Divide\<close> and \<open>Modulo\<close>, the value sequence of the result is the sequence of the
  successful per-pair results of the cross product, left values outermost, right values
  innermost, duplicates kept; when no pair is excluded its length is the product of the
  operands' lengths; and \<open>Add(any(1,2,3), all(4,5))\<close> has the eigenstates
  \<open>[5,6,6,7,7,8]\<close>, as float64 values.
\<close>

theorem arithmetic_values_cross_product:
  "(\<forall>(f, c)\<in>set arithmetic_ops.
      Eigenstates (f a b) =
        cross_results (\<lambda>x y. performArithmetic x y c)
          (fst (extractValues a)) (fst (extractValues b)) \<and>
      ((\<forall>av\<in>set (fst (extractValues a)). \<forall>bv\<in>set (fst (extractValues b)).
          \<not> isl (performArithmetic av bv c)) \<longrightarrow>
       length (Eigenstates (f a b)) =
         length (fst (extractValues a)) * length (fst (extractValues b)))) \<and>
   Eigenstates (Add (VSup (Any [VInt 1, VInt 2, VInt 3])) (VSup (All' [VInt 4, VInt 5]))) =
     map (\<lambda>i. VFloat64 (f64_of_int i)) [5, 6, 6, 7, 7, 8]"
proof (rule conjI)
  show "Eigenstates (Add (VSup (Any [VInt 1, VInt 2, VInt 3])) (VSup (All' [VInt 4, VInt 5]))) =
       map (\<lambda>i. VFloat64 (f64_of_int i)) [5, 6, 6, 7, 7, 8]"
    by code_simp
next
  have general: "Eigenstates (f a b) =
        cross_results (\<lambda>x y. performArithmetic x y c)
          (fst (extractValues a)) (fst (extractValues b))"
    if "(f, c) \<in> set arithmetic_ops" for f c
    by (simp add: arithmetic_ops_combine [OF that] combineValues_eq Eigenstates_def)
  show "\<forall>(f, c)\<in>set arithmetic_ops.
      Eigenstates (f a b) =
        cross_results (\<lambda>x y. performArithmetic x y c)
          (fst (extractValues a)) (fst (extractValues b)) \<and>
      ((\<forall>av\<in>set (fst (extractValues a)). \<forall>bv\<in>set (fst (extractValues b)).
          \<not> isl (performArithmetic av bv c)) \<longrightarrow>
       length (Eigenstates (f a b)) =
         length (fst (extractValues a)) * length (fst (extractValues b)))"
  proof (intro ballI, clarify, intro conjI impI)
    fix f c assume mem: "(f, c) \<in> set arithmetic_ops"
    show "Eigenstates (f a b) =
        cross_results (\<lambda>x y. performArithmetic x y c)
          (fst (extractValues a)) (fst (extractValues b))"
      by (rule general [OF mem])
    assume "\<forall>av\<in>set (fst (extractValues a)). \<forall>bv\<in>set (fst (extractValues b)).
          \<not> isl (performArithmetic av bv c)"
    then show "length (Eigenstates (f a b)) =
         length (fst (extractValues a)) * length (fst (extractValues b))"
      unfolding general [OF mem] by (rule cross_results_length)
  qed
qed

theorem arithmetic_values_cross_product_witness:
  "length (Eigenstates (Multiply (VSup (Any [VInt 1, VInt 2])) (VSup (Any [VInt 3, VUint 4])))) =
     2 * 2"
proof -
  let ?a = "VSup (Any [VInt 1, VInt 2])" and ?b = "VSup (Any [VInt 3, VUint 4])"
  have mem: "(Multiply, CHR ''*'') \<in> set arithmetic_ops"
    by (simp add: arithmetic_ops_def)
  have ok: "\<forall>av\<in>set (fst (extractValues ?a)). \<forall>bv\<in>set (fst (extractValues ?b)).
              \<not> isl (performArithmetic av bv CHR ''*'')"
    by (simp add: Any_def performArithmetic_def)
  have vals: "fst (extractValues ?a) = [VInt 1, VInt 2]" "fst (extractValues ?b) = [VInt 3, VUint 4]"
    by (simp_all add: Any_def)
  from arithmetic_values_cross_product [of ?a ?b] mem
  have "(\<forall>av\<in>set (fst (extractValues ?a)). \<forall>bv\<in>set (fst (extractValues ?b)).
          \<not> isl (performArithmetic av bv CHR ''*'')) \<longrightarrow>
        length (Eigenstates (Multiply ?a ?b)) =
          length (fst (extractValues ?a)) * length (fst (extractValues ?b))"
    by fast
  with ok have "length (Eigenstates (Multiply ?a ?b)) =
          length (fst (extractValues ?a)) * length (fst (extractValues ?b))" by (rule rev_mp)
  then show ?thesis unfolding vals by simp
qed

text \<open>
  Claim C3. For every pair of operands and each arithmetic operation, the result is
  conjunctive exactly when one of the operands is, where an operand that is not a
  superposition counts as a single disjunctive value; so a conjunctive operand is never
  demoted by a combination.
\<close>

theorem arithmetic_mode_promotion:
  "(\<forall>(f, c)\<in>set arithmetic_ops.
      (typ' (f x y) = Conjunctive) =
        (snd (extractValues x) = Conjunctive \<or> snd (extractValues y) = Conjunctive)) \<and>
   ((\<forall>s. v \<noteq> VSup s) \<longrightarrow> extractValues v = ([v], Disjunctive)) \<and>
   extractValues (VSup s) = (values' s, typ' s)"
proof (intro conjI ballI)
  fix p assume pm: "p \<in> set arithmetic_ops"
  obtain f c where p: "p = (f, c)" by (cases p)
  have mem: "(f, c) \<in> set arithmetic_ops" using pm p by simp
  show "case p of (f, c) \<Rightarrow> (typ' (f x y) = Conjunctive) =
        (snd (extractValues x) = Conjunctive \<or> snd (extractValues y) = Conjunctive)"
    unfolding p by (simp add: arithmetic_ops_combine [OF mem] combineValues_eq)
next
  show "(\<forall>s. v \<noteq> VSup s) \<longrightarrow> extractValues v = ([v], Disjunctive)"
    by (cases v) simp_all
next
  show "extractValues (VSup s) = (values' s, typ' s)" by simp
qed

theorem arithmetic_mode_promotion_witness:
  "typ' (Add (VInt 1) (VSup (All' [VInt 2]))) = Conjunctive \<and>
   typ' (Add (VSup (All' [VInt 2])) (VInt 1)) = Conjunctive \<and>
   typ' (Add (VInt 1) (VSup (Any [VInt 2]))) \<noteq> Conjunctive \<and>
   extractValues (VInt 1) = ([VInt 1], Disjunctive)"
proof -
  have mem: "(Add, CHR ''+'') \<in> set arithmetic_ops"
    by (simp add: arithmetic_ops_def)
  have sc: "\<forall>s. VInt 1 \<noteq> VSup s" by simp
  have iff: "(typ' (Add x y) = Conjunctive) =
        (snd (extractValues x) = Conjunctive \<or> snd (extractValues y) = Conjunctive)" for x y
    using arithmetic_mode_promotion [of x y] mem by fast
  have "extractValues (VInt 1) = ([VInt 1], Disjunctive)"
    using arithmetic_mode_promotion [of _ _ "VInt 1"] sc by fast
  then show ?thesis
    by (simp add: iff Any_def All'_def)
qed

text \<open>
  Claim C4, as amended. An arithmetic operation whose operands are not the nil pointer of
  type \<open>*Superposition\<close> returns a superposition and signals no error to the caller. A
  pair makes \<open>performArithmetic\<close> fail exactly when it is excluded in the specification's
  sense (an operand fails numeric coercion, or the operator is \<open>/\<close> or \<open>%\<close> and the
  divisor coerces to zero), and the result holds the per-pair results of all the other
  pairs of the cross product, in order; \<open>Divide(any(1,2), any(0,2))\<close> yields the results
  of the two pairs whose divisor is 2. When an operand is the nil \<open>*Superposition\<close>
  pointer the operation panics.
\<close>

theorem arithmetic_returns_unless_nil:
  "(\<forall>(g, c)\<in>set arithmetic_calls.
      (\<exists>s. g (Operand a) (Operand b) = Inr s \<and>
           Eigenstates s =
             map (\<lambda>(av, bv). projr (performArithmetic av bv c))
               (filter (\<lambda>(av, bv). \<not> excluded c av bv)
                  (List.product (fst (extractValues a)) (fst (extractValues b))))) \<and>
      (\<forall>av bv. isl (performArithmetic av bv c) = excluded c av bv) \<and>
      g NilSuperposition y = Inl NilDereference \<and>
      g x NilSuperposition = Inl NilDereference) \<and>
   (\<forall>(f, c)\<in>set arithmetic_ops.
      Eigenstates (f a b) =
        map (\<lambda>(av, bv). projr (performArithmetic av bv c))
          (filter (\<lambda>(av, bv). \<not> excluded c av bv)
             (List.product (fst (extractValues a)) (fst (extractValues b))))) \<and>
   Add_operand (Operand a) (Operand b) = Inr (Add a b) \<and>
   Subtract_operand (Operand a) (Operand b) = Inr (Subtract a b) \<and>
   Multiply_operand (Operand a) (Operand b) = Inr (Multiply a b) \<and>
   Divide_operand (Operand a) (Operand b) = Inr (Divide a b) \<and>
   Modulo_operand (Operand a) (Operand b) = Inr (Modulo a b) \<and>
   Divide_operand (Operand (VSup (Any [VInt 1, VInt 2]))) (Operand (VSup (Any [VInt 0, VInt 2]))) =
     Inr (Superposition
            [VFloat64 (f64_div (f64_of_int 1) (f64_of_int 2)),
             VFloat64 (f64_div (f64_of_int 2) (f64_of_int 2))]
            Disjunctive)"
proof (intro conjI ballI)
  fix p assume pm: "p \<in> set arithmetic_calls"
  obtain g c where p: "p = (g, c)" by (cases p)
  have mem: "(g, c) \<in> set arithmetic_calls" using pm p by simp
  from arithmetic_calls_ops [OF mem] obtain f where
    f: "(f, c) \<in> set arithmetic_ops" and gf: "g (Operand a) (Operand b) = Inr (f a b)"
    by blast
  have isl: "isl (performArithmetic av bv c) = excluded c av bv" for av bv
    by (rule performArithmetic_isl [OF arithmetic_ops_chars [OF f]])
  have ret: "\<exists>s. g (Operand a) (Operand b) = Inr s \<and>
           Eigenstates s =
             map (\<lambda>(av, bv). projr (performArithmetic av bv c))
               (filter (\<lambda>(av, bv). \<not> excluded c av bv)
                  (List.product (fst (extractValues a)) (fst (extractValues b))))"
    using gf arithmetic_ops_exclusion [OF f, of a b] by blast
  show "case p of (g, c) \<Rightarrow>
      (\<exists>s. g (Operand a) (Operand b) = Inr s \<and>
           Eigenstates s =
             map (\<lambda>(av, bv). projr (performArithmetic av bv c))
               (filter (\<lambda>(av, bv). \<not> excluded c av bv)
                  (List.product (fst (extractValues a)) (fst (extractValues b))))) \<and>
      (\<forall>av bv. isl (performArithmetic av bv c) = excluded c av bv) \<and>
      g NilSuperposition y = Inl NilDereference \<and>
      g x NilSuperposition = Inl NilDereference"
    unfolding p using ret isl arithmetic_calls_nil [OF mem, of y x] by simp
next
  fix p assume pm: "p \<in> set arithmetic_ops"
  obtain f c where p: "p = (f, c)" by (cases p)
  have mem: "(f, c) \<in> set arithmetic_ops" using pm p by simp
  show "case p of (f, c) \<Rightarrow>
      Eigenstates (f a b) =
        map (\<lambda>(av, bv). projr (performArithmetic av bv c))
          (filter (\<lambda>(av, bv). \<not> excluded c av bv)
             (List.product (fst (extractValues a)) (fst (extractValues b))))"
    unfolding p using arithmetic_ops_exclusion [OF mem] by simp
next
  show "Add_operand (Operand a) (Operand b) = Inr (Add a b)"
    "Subtract_operand (Operand a) (Operand b) = Inr (Subtract a b)"
    "Multiply_operand (Operand a) (Operand b) = Inr (Multiply a b)"
    "Divide_operand (Operand a) (Operand b) = Inr (Divide a b)"
    "Modulo_operand (Operand a) (Operand b) = Inr (Modulo a b)"
    by (rule arithmetic_operand_Operand)+
  have "Divide (VSup (Any [VInt 1, VInt 2])) (VSup (Any [VInt 0, VInt 2])) =
          Superposition
            [VFloat64 (f64_div (f64_of_int 1) (f64_of_int 2)),
             VFloat64 (f64_div (f64_of_int 2) (f64_of_int 2))]
            Disjunctive"
    by code_simp
  then show "Divide_operand (Operand (VSup (Any [VInt 1, VInt 2])))
      (Operand (VSup (Any [VInt 0, VInt 2]))) =
     Inr (Superposition
            [VFloat64 (f64_div (f64_of_int 1) (f64_of_int 2)),
             VFloat64 (f64_div (f64_of_int 2) (f64_of_int 2))]
            Disjunctive)"
    by (simp only: arithmetic_operand_Operand)
qed

theorem arithmetic_returns_unless_nil_witness:
  "excluded CHR ''%'' (VInt 7) (VInt 0) \<and> excluded CHR ''+'' (VString ''cat'') (VInt 1) \<and>
   \<not> excluded CHR ''%'' (VInt 7) (VInt 2) \<and>
   (\<exists>s. Modulo_operand (Operand (VInt 7))
          (Operand (VSup (Any [VInt 0, VString ''cat'', VInt 2]))) = Inr s \<and>
        Eigenstates s = [VFloat64 (f64_of_int 1)]) \<and>
   Modulo_operand NilSuperposition (Operand (VInt 2)) = Inl NilDereference"
proof -
  let ?a = "VInt 7" and ?b = "VSup (Any [VInt 0, VString ''cat'', VInt 2])"
  have mem: "(Modulo_operand, CHR ''%'') \<in> set arithmetic_calls"
    by (simp add: arithmetic_calls_def)
  have e1: "excluded CHR ''%'' (VInt 7) (VInt 0)" by code_simp
  have e2: "excluded CHR ''+'' (VString ''cat'') (VInt 1)" by code_simp
  have e3: "excluded CHR ''%'' (VInt 7) (VString ''cat'')" by code_simp
  have e4: "\<not> excluded CHR ''%'' (VInt 7) (VInt 2)" by code_simp
  have r: "projr (performArithmetic (VInt 7) (VInt 2) CHR ''%'') = VFloat64 (f64_of_int 1)"
    by code_simp
  have l: "map (\<lambda>(av, bv). projr (performArithmetic av bv CHR ''%''))
          (filter (\<lambda>(av, bv). \<not> excluded CHR ''%'' av bv)
             (List.product (fst (extractValues ?a)) (fst (extractValues ?b)))) =
        [VFloat64 (f64_of_int 1)]"
    by (simp add: Any_def e1 e3 e4 r)
  from arithmetic_returns_unless_nil [of ?a ?b "Operand (VInt 2)"] mem
  have "(\<exists>s. Modulo_operand (Operand ?a) (Operand ?b) = Inr s \<and>
           Eigenstates s =
             map (\<lambda>(av, bv). projr (performArithmetic av bv CHR ''%''))
               (filter (\<lambda>(av, bv). \<not> excluded CHR ''%'' av bv)
                  (List.product (fst (extractValues ?a)) (fst (extractValues ?b))))) \<and>
        Modulo_operand NilSuperposition (Operand (VInt 2)) = Inl NilDereference"
    by fast
  then have "(\<exists>s. Modulo_operand (Operand ?a) (Operand ?b) = Inr s \<and>
                 Eigenstates s = [VFloat64 (f64_of_int 1)]) \<and>
        Modulo_operand NilSuperposition (Operand (VInt 2)) = Inl NilDereference"
    by (simp only: l)
  with e1 e2 e4 show ?thesis by blast
qed

text \<open>
  The claim as first stated, that every arithmetic operation is total, fails on the nil
  pointer of type \<open>*Superposition\<close>: \<open>extractValues\<close> dereferences it, and \<open>Add\<close> and
  \<open>Divide\<close> panic instead of returning.
\<close>

theorem arithmetic_nil_operand_panics:
  "Add_operand NilSuperposition (Operand (VInt 1)) = Inl NilDereference \<and>
   Divide_operand (Operand (VSup (Any [VInt 1, VInt 2]))) NilSuperposition = Inl NilDereference"
  by (simp add: Add_operand_def Divide_operand_def combineValues_operand_nil_left
      combineValues_operand_nil_right)

text \<open>
  Claim C8. An empty operand absorbs: for each arithmetic operation, when either operand
  is a superposition with no values the result has no values, while the mode of the
  result is still promoted as for any other operands. In particular \<open>Add(All(), x)\<close> is
  the empty conjunctive superposition for every \<open>x\<close>, so adding scalars one after the
  other to \<open>All()\<close>, as the loop of \<open>isPrime\<close> does, leaves it empty.
\<close>

theorem empty_operand_absorbing:
  "(\<forall>(f, c)\<in>set arithmetic_ops.
      Eigenstates (f (VSup (Superposition [] t)) x) = [] \<and>
      Eigenstates (f x (VSup (Superposition [] t))) = [] \<and>
      typ' (f (VSup (Superposition [] t)) x) =
        (if t = Conjunctive \<or> snd (extractValues x) = Conjunctive
         then Conjunctive else Disjunctive) \<and>
      typ' (f x (VSup (Superposition [] t))) =
        (if snd (extractValues x) = Conjunctive \<or> t = Conjunctive
         then Conjunctive else Disjunctive)) \<and>
   Add (VSup (All' [])) x = All' [] \<and>
   foldl (\<lambda>divisors i. VSup (Add divisors i)) (VSup (All' [])) scalars = VSup (All' [])"
proof (intro conjI ballI)
  fix p assume pm: "p \<in> set arithmetic_ops"
  obtain f c where p: "p = (f, c)" by (cases p)
  have mem: "(f, c) \<in> set arithmetic_ops" using pm p by simp
  show "case p of (f, c) \<Rightarrow>
      Eigenstates (f (VSup (Superposition [] t)) x) = [] \<and>
      Eigenstates (f x (VSup (Superposition [] t))) = [] \<and>
      typ' (f (VSup (Superposition [] t)) x) =
        (if t = Conjunctive \<or> snd (extractValues x) = Conjunctive
         then Conjunctive else Disjunctive) \<and>
      typ' (f x (VSup (Superposition [] t))) =
        (if snd (extractValues x) = Conjunctive \<or> t = Conjunctive
         then Conjunctive else Disjunctive)"
    unfolding p
    by (simp add: arithmetic_ops_combine [OF mem] combineValues_eq Eigenstates_def
        cross_results_def pair_results_def)
next
  have add: "Add (VSup (All' [])) y = All' []" for y
    by (simp add: Add_def combineValues_eq All'_def cross_results_def)
  show "Add (VSup (All' [])) x = All' []" by (rule add)
  show "foldl (\<lambda>divisors i. VSup (Add divisors i)) (VSup (All' [])) scalars = VSup (All' [])"
    by (induction scalars) (simp_all add: add)
qed

theorem empty_operand_absorbing_witness:
  "Eigenstates (Modulo (VInt 29) (VSup (All' []))) = [] \<and>
   typ' (Modulo (VInt 29) (VSup (All' []))) = Conjunctive \<and>
   Eigenstates (Add (VSup (Any [])) (VInt 2)) = [] \<and>
   typ' (Add (VSup (Any [])) (VInt 2)) = Disjunctive"
proof -
  have m: "(Modulo, CHR ''%'') \<in> set arithmetic_ops" and a: "(Add, CHR ''+'') \<in> set arithmetic_ops"
    by (simp_all add: arithmetic_ops_def)
  have "Eigenstates (Modulo x (VSup (Superposition [] t))) = [] \<and>
        typ' (Modulo x (VSup (Superposition [] t))) =
          (if snd (extractValues x) = Conjunctive \<or> t = Conjunctive
           then Conjunctive else Disjunctive)" for x t
    using empty_operand_absorbing [of t x] m by fast
  moreover have "Eigenstates (Add (VSup (Superposition [] t)) x) = [] \<and>
        typ' (Add (VSup (Superposition [] t)) x) =
          (if t = Conjunctive \<or> snd (extractValues x) = Conjunctive
           then Conjunctive else Disjunctive)" for x t
    using empty_operand_absorbing [of t x] a by fast
  ultimately show ?thesis by (simp add: Any_def All'_def)
qed

text \<open>
  Claim C10. Every eigenstate that an arithmetic operation produces is a float64 value,
  also when both inputs are integers: \<open>Add(2, 3)\<close> stores the float64 \<open>5\<close>, which is
  not the integer \<open>5\<close>. The constructors \<open>Any\<close> and \<open>All\<close> store the values they are
  given unchanged.
\<close>

theorem arithmetic_results_are_float64:
  "(\<forall>(f, c)\<in>set arithmetic_ops. \<forall>v\<in>set (Eigenstates (f a b)). \<exists>x. v = VFloat64 x) \<and>
   Eigenstates (Any vs) = vs \<and> Eigenstates (All' vs) = vs \<and>
   Eigenstates (Add (VInt 2) (VInt 3)) = [VFloat64 (f64_of_int 5)] \<and>
   Eigenstates (Add (VInt 2) (VInt 3)) \<noteq> [VInt 5]"
proof (intro conjI ballI)
  fix p assume pm: "p \<in> set arithmetic_ops"
  obtain f c where p: "p = (f, c)" by (cases p)
  have mem: "(f, c) \<in> set arithmetic_ops" using pm p by simp
  have "Eigenstates (f a b) =
        cross_results (\<lambda>x y. performArithmetic x y c)
          (fst (extractValues a)) (fst (extractValues b))"
    by (simp add: arithmetic_ops_combine [OF mem] combineValues_eq Eigenstates_def)
  then have "\<forall>v\<in>set (Eigenstates (f a b)). \<exists>x. v = VFloat64 x"
    by (auto simp: cross_results_set dest: performArithmetic_Float64)
  then show "case p of (f, c) \<Rightarrow> \<forall>v\<in>set (Eigenstates (f a b)). \<exists>x. v = VFloat64 x"
    unfolding p by simp
next
  show "Eigenstates (Any vs) = vs" "Eigenstates (All' vs) = vs"
    by (simp_all add: Eigenstates_def Any_def All'_def)
  show e: "Eigenstates (Add (VInt 2) (VInt 3)) = [VFloat64 (f64_of_int 5)]"
    by code_simp
  show "Eigenstates (Add (VInt 2) (VInt 3)) \<noteq> [VInt 5]"
    unfolding e by simp
qed

theorem arithmetic_results_are_float64_witness:
  "Eigenstates (Multiply (VInt 2) (VUint 3)) \<noteq> [] \<and>
   (\<exists>x. hd (Eigenstates (Multiply (VInt 2) (VUint 3))) = VFloat64 x)"
proof -
  have m: "(Multiply, CHR ''*'') \<in> set arithmetic_ops"
    by (simp add: arithmetic_ops_def)
  have ne: "Eigenstates (Multiply (VInt 2) (VUint 3)) \<noteq> []"
    by code_simp
  then have "hd (Eigenstates (Multiply (VInt 2) (VUint 3))) \<in>
               set (Eigenstates (Multiply (VInt 2) (VUint 3)))"
    by (rule hd_in_set)
  moreover have "\<forall>v\<in>set (Eigenstates (Multiply (VInt 2) (VUint 3))). \<exists>x. v = VFloat64 x"
    using arithmetic_results_are_float64 [of "VInt 2" "VUint 3"] m by fast
  ultimately have "\<exists>x. hd (Eigenstates (Multiply (VInt 2) (VUint 3))) = VFloat64 x"
    by blast
  with ne show ?thesis by (rule conjI)
qed


section \<open>Filtering engine\<close>

text \<open>
  Claim C1 says that with a conjunctive right operand a left value is kept only when the
  comparison holds against every right value. The loop of \<open>compareValues\<close> leaves at the
  first true verdict whatever the mode of the right operand (lemma
  \<open>compare_inner_Conjunctive\<close>), so \<open>EqualTo(5, All(5, 6))\<close> keeps \<open>5\<close> although
  \<open>5 = 6\<close> is false, and \<open>LessThan(12, All(15, 10))\<close> keeps \<open>12\<close> although
  \<open>12 < 10\<close> is false.
\<close>

theorem conjunctive_filter_first_verdict_decides:
  "Eigenstates (EqualTo (VInt 5) (VSup (All' [VInt 5, VInt 6]))) = [VInt 5] \<and>
   performComparison (VInt 5) (VInt 6) CHR ''='' = Inr False \<and>
   Eigenstates (LessThan (VInt 12) (VSup (All' [VInt 15, VInt 10]))) = [VInt 12] \<and>
   performComparison (VInt 12) (VInt 10) CHR ''<'' = Inr False"
  by code_simp

lemma equalTo_numeric_eq:
  "(performComparison a b CHR ''='' = Inr True) = numeric_eq a b"
  by (auto simp: performComparison_def numeric_eq_def split: prod.splits)

lemma EqualTo_Any_numeric_eq:
  "Eigenstates (EqualTo (VSup (Any A)) (VSup (Any B))) =
     filter (\<lambda>x. \<exists>y\<in>set B. numeric_eq x y) A"
proof -
  have eq: "(EqualTo, CHR ''='') \<in> set filter_ops" by (simp add: filter_ops_def)
  show ?thesis
    by (simp add: filter_ops_Eigenstates [OF eq] compare_inner_Disjunctive Any_def
        equalTo_numeric_eq)
qed

lemma EqualTo_Any_intersection:
  assumes "\<forall>x\<in>set A. \<forall>y\<in>set B. numeric_eq x y = (x = y)"
  shows "Eigenstates (EqualTo (VSup (Any A)) (VSup (Any B))) = filter (\<lambda>x. x \<in> set B) A"
proof -
  have "(\<exists>y\<in>set B. numeric_eq x y) = (x \<in> set B)" if "x \<in> set A" for x
    using assms that by auto
  then have "filter (\<lambda>x. \<exists>y\<in>set B. numeric_eq x y) A = filter (\<lambda>x. x \<in> set B) A"
    by (simp cong: filter_cong)
  then show ?thesis by (simp only: EqualTo_Any_numeric_eq)
qed

lemma f64_of_nat_int: "f64_of_nat n = f64_of_int (int n)"
  by (simp add: f64_of_nat_def f64_of_int_def)

lemma numeric_eq_VInt:
  "\<bar>i\<bar> \<le> 2 ^ 53 \<Longrightarrow> \<bar>j\<bar> \<le> 2 ^ 53 \<Longrightarrow> numeric_eq (VInt i) (VInt j) = (i = j)"
  by (simp add: numeric_eq_def f64_eq_of_int)

lemma numeric_eq_VUint:
  assumes "m \<le> 2 ^ 53" "n \<le> 2 ^ 53"
  shows "numeric_eq (VUint m) (VUint n) = (m = n)"
proof -
  have "int m \<le> 2 ^ 53" "int n \<le> 2 ^ 53"
    using assms by (simp_all add: of_nat_le_iff [of _ "2 ^ 53", where 'a = int, simplified])
  then have "f64_eq (f64_of_int (int m)) (f64_of_int (int n)) = (int m = int n)"
    by (intro f64_eq_of_int) simp_all
  then show ?thesis by (simp add: numeric_eq_def f64_of_nat_int)
qed

lemma filter_mem_map_inj:
  assumes "inj h"
  shows "filter (\<lambda>x. x \<in> set (map h ys)) (map h xs) = map h (filter (\<lambda>x. x \<in> set ys) xs)"
  using assms by (simp add: filter_map comp_def inj_image_mem_iff)

text \<open>
  Claim C5, as amended. For each filtering operation with a disjunctive right operand, a
  left value is kept exactly when some right value satisfies the comparison, and a match
  ends the inner scan whatever follows it. For \<open>EqualTo(any(A), any(B))\<close> the result is
  the sublist of \<open>A\<close>, in the order of \<open>A\<close> and with its duplicates, of the values that
  are numerically equal, after coercion to float64, to some value of \<open>B\<close>. It is the
  intersection of \<open>A\<close> and \<open>B\<close> whenever numeric equality and identity agree on their
  values, as they do when \<open>A\<close> and \<open>B\<close> hold integers of one integer type and of
  magnitude at most \<open>2^53\<close> (lists \<open>map VInt\<close> for a signed type, \<open>map VUint\<close> for an
  unsigned one).
\<close>

theorem disjunctive_filter_existential:
  "(\<forall>(f, c)\<in>set filter_ops.
      snd (extractValues b) = Disjunctive \<longrightarrow>
      Eigenstates (f a b) =
        filter (\<lambda>av. \<exists>bv\<in>set (fst (extractValues b)). performComparison av bv c = Inr True)
          (fst (extractValues a))) \<and>
   (comp' av bv = Inr True \<longrightarrow> compare_inner comp' Disjunctive av (bv # rest) m = True) \<and>
   Eigenstates (EqualTo (VSup (Any A)) (VSup (Any B))) =
     filter (\<lambda>x. \<exists>y\<in>set B. numeric_eq x y) A \<and>
   ((\<forall>x\<in>set A. \<forall>y\<in>set B. numeric_eq x y = (x = y)) \<longrightarrow>
    Eigenstates (EqualTo (VSup (Any A)) (VSup (Any B))) = filter (\<lambda>x. x \<in> set B) A) \<and>
   ((\<forall>i\<in>set ms \<union> set ns. \<bar>i\<bar> \<le> 2 ^ 53) \<longrightarrow>
    Eigenstates (EqualTo (VSup (Any (map VInt ms))) (VSup (Any (map VInt ns)))) =
      map VInt (filter (\<lambda>i. i \<in> set ns) ms) \<and>
    Eigenstates (EqualTo (VSup (Any (map VInt ms))) (VSup (Any (map VInt ns)))) =
      filter (\<lambda>x. x \<in> set (map VInt ns)) (map VInt ms)) \<and>
   ((\<forall>k\<in>set us \<union> set vs. k \<le> 2 ^ 53) \<longrightarrow>
    Eigenstates (EqualTo (VSup (Any (map VUint us))) (VSup (Any (map VUint vs)))) =
      map VUint (filter (\<lambda>k. k \<in> set vs) us) \<and>
    Eigenstates (EqualTo (VSup (Any (map VUint us))) (VSup (Any (map VUint vs)))) =
      filter (\<lambda>x. x \<in> set (map VUint vs)) (map VUint us))"
proof (intro conjI ballI impI)
  fix p assume pm: "p \<in> set filter_ops"
  obtain f c where p: "p = (f, c)" by (cases p)
  have mem: "(f, c) \<in> set filter_ops" using pm p by simp
  show "case p of (f, c) \<Rightarrow>
      snd (extractValues b) = Disjunctive \<longrightarrow>
      Eigenstates (f a b) =
        filter (\<lambda>av. \<exists>bv\<in>set (fst (extractValues b)). performComparison av bv c = Inr True)
          (fst (extractValues a))"
    unfolding p
    by (simp add: filter_ops_Eigenstates [OF mem] compare_inner_Disjunctive)
next
  assume "comp' av bv = Inr True"
  then show "compare_inner comp' Disjunctive av (bv # rest) m = True" by simp
next
  show "Eigenstates (EqualTo (VSup (Any A)) (VSup (Any B))) =
     filter (\<lambda>x. \<exists>y\<in>set B. numeric_eq x y) A"
    by (rule EqualTo_Any_numeric_eq)
next
  assume "\<forall>x\<in>set A. \<forall>y\<in>set B. numeric_eq x y = (x = y)"
  then show "Eigenstates (EqualTo (VSup (Any A)) (VSup (Any B))) = filter (\<lambda>x. x \<in> set B) A"
    by (rule EqualTo_Any_intersection)
next
  assume small: "\<forall>i\<in>set ms \<union> set ns. \<bar>i\<bar> \<le> 2 ^ 53"
  have "\<forall>x\<in>set (map VInt ms). \<forall>y\<in>set (map VInt ns). numeric_eq x y = (x = y)"
    using small by (auto simp: numeric_eq_VInt)
  then show i: "Eigenstates (EqualTo (VSup (Any (map VInt ms))) (VSup (Any (map VInt ns)))) =
      filter (\<lambda>x. x \<in> set (map VInt ns)) (map VInt ms)"
    by (rule EqualTo_Any_intersection)
  have "inj VInt" by (simp add: inj_def)
  then show "Eigenstates (EqualTo (VSup (Any (map VInt ms))) (VSup (Any (map VInt ns)))) =
      map VInt (filter (\<lambda>i. i \<in> set ns) ms)"
    unfolding i by (rule filter_mem_map_inj)
next
  assume small: "\<forall>k\<in>set us \<union> set vs. k \<le> 2 ^ 53"
  have "\<forall>x\<in>set (map VUint us). \<forall>y\<in>set (map VUint vs). numeric_eq x y = (x = y)"
    using small by (auto simp: numeric_eq_VUint)
  then show u: "Eigenstates (EqualTo (VSup (Any (map VUint us))) (VSup (Any (map VUint vs)))) =
      filter (\<lambda>x. x \<in> set (map VUint vs)) (map VUint us)"
    by (rule EqualTo_Any_intersection)
  have "inj VUint" by (simp add: inj_def)
  then show "Eigenstates (EqualTo (VSup (Any (map VUint us))) (VSup (Any (map VUint vs)))) =
      map VUint (filter (\<lambda>k. k \<in> set vs) us)"
    unfolding u by (rule filter_mem_map_inj)
qed


theorem disjunctive_filter_existential_witness:
  "Eigenstates (EqualTo (VSup (Any (map VInt [1, 2, 3, 3, 4]))) (VSup (Any (map VInt [3, 4, 5, 6])))) =
     map VInt [3, 3, 4] \<and>
   Eigenstates (EqualTo (VSup (Any (map VUint [7, 8, 8]))) (VSup (Any (map VUint [8, 9])))) =
     map VUint [8, 8] \<and>
   Eigenstates (EqualTo (VSup (Any [VInt 3, VString ''cat''])) (VSup (Any [VInt 3]))) = [VInt 3] \<and>
   Eigenstates (GreaterThan (VSup (Any [VInt 1, VInt 7])) (VSup (Any [VString ''x'', VInt 5]))) =
     [VInt 7] \<and>
   compare_inner equalToValues Disjunctive (VInt 1) [VInt 1, VString ''x''] False = True"
proof -
  have small: "\<forall>i\<in>set [1, 2, 3, 3, 4] \<union> set [3, 4, 5, 6]. \<bar>i\<bar> \<le> (2::int) ^ 53"
    by simp
  have "Eigenstates (EqualTo (VSup (Any (map VInt [1, 2, 3, 3, 4])))
            (VSup (Any (map VInt [3, 4, 5, 6])))) =
          map VInt (filter (\<lambda>i. i \<in> set [3, 4, 5, 6]) [1, 2, 3, 3, 4])"
    using disjunctive_filter_existential [where ms = "[1, 2, 3, 3, 4]" and ns = "[3, 4, 5, 6]"]
      small by fast
  then have one: "Eigenstates (EqualTo (VSup (Any (map VInt [1, 2, 3, 3, 4])))
            (VSup (Any (map VInt [3, 4, 5, 6])))) = map VInt [3, 3, 4]"
    by simp
  have usmall: "\<forall>k\<in>set [7, 8, 8] \<union> set [8, 9]. k \<le> (2::nat) ^ 53"
    by simp
  have "Eigenstates (EqualTo (VSup (Any (map VUint [7, 8, 8]))) (VSup (Any (map VUint [8, 9])))) =
          map VUint (filter (\<lambda>k. k \<in> set [8, 9]) [7, 8, 8])"
    using disjunctive_filter_existential [where us = "[7, 8, 8]" and vs = "[8, 9]"]
      usmall by fast
  then have uns: "Eigenstates (EqualTo (VSup (Any (map VUint [7, 8, 8])))
            (VSup (Any (map VUint [8, 9])))) = map VUint [8, 8]"
    by simp
  have n1: "numeric_eq (VInt 3) (VInt 3) = True" and n2: "numeric_eq (VString ''cat'') (VInt 3) = False"
    by code_simp+
  have ident: "\<forall>x\<in>set [VInt 3, VString ''cat'']. \<forall>y\<in>set [VInt 3]. numeric_eq x y = (x = y)"
    by (simp add: n1 n2)
  have "Eigenstates (EqualTo (VSup (Any [VInt 3, VString ''cat''])) (VSup (Any [VInt 3]))) =
          filter (\<lambda>x. x \<in> set [VInt 3]) [VInt 3, VString ''cat'']"
    using disjunctive_filter_existential
      [where A = "[VInt 3, VString ''cat'']" and B = "[VInt 3]"] ident by fast
  then have gen: "Eigenstates (EqualTo (VSup (Any [VInt 3, VString ''cat''])) (VSup (Any [VInt 3]))) =
          [VInt 3]"
    by simp
  let ?a = "VSup (Any [VInt 1, VInt 7])" and ?b = "VSup (Any [VString ''x'', VInt 5])"
  have g: "(GreaterThan, CHR ''>'') \<in> set filter_ops" by (simp add: filter_ops_def)
  have d: "snd (extractValues ?b) = Disjunctive" by (simp add: Any_def)
  have v: "(\<exists>bv\<in>set (fst (extractValues ?b)). performComparison (VInt 1) bv CHR ''>'' = Inr True) = False"
    "(\<exists>bv\<in>set (fst (extractValues ?b)). performComparison (VInt 7) bv CHR ''>'' = Inr True) = True"
    by code_simp+
  have "Eigenstates (GreaterThan ?a ?b) =
        filter (\<lambda>av. \<exists>bv\<in>set (fst (extractValues ?b)). performComparison av bv CHR ''>'' = Inr True)
          (fst (extractValues ?a))"
    using disjunctive_filter_existential [where b = ?b and a = ?a] g d by fast
  also have "fst (extractValues ?a) = [VInt 1, VInt 7]" by (simp add: Any_def)
  finally have two: "Eigenstates (GreaterThan ?a ?b) = [VInt 7]"
    by (simp only: filter.simps v if_True if_False)
  have m: "equalToValues (VInt 1) (VInt 1) = Inr True" by code_simp
  have stop: "compare_inner equalToValues Disjunctive (VInt 1) [VInt 1, VString ''x''] False = True"
    using disjunctive_filter_existential
      [where comp' = equalToValues and av = "VInt 1" and bv = "VInt 1"
         and rest = "[VString ''x'']" and m = False] m by fast
  from one uns gen two stop show ?thesis by (intro conjI)
qed

text \<open>
  The claim as first stated, that \<open>EqualTo(any(A), any(B))\<close> is the intersection of
  \<open>A\<close> and \<open>B\<close> for all value lists, fails: \<open>2^53 + 1\<close> is kept against \<open>2^53\<close>,
  since both convert to the same float64; the text \<open>cat\<close> is not kept against itself,
  since it fails coercion; and the signed \<open>3\<close> is kept against the unsigned \<open>3\<close>, a
  value of another type.
\<close>

theorem EqualTo_not_set_intersection:
  "Eigenstates (EqualTo (VSup (Any [VInt (2 ^ 53 + 1)])) (VSup (Any [VInt (2 ^ 53)]))) \<noteq>
     filter (\<lambda>a. a \<in> set [VInt (2 ^ 53)]) [VInt (2 ^ 53 + 1)] \<and>
   Eigenstates (EqualTo (VSup (Any [VString ''cat''])) (VSup (Any [VString ''cat'']))) \<noteq>
     filter (\<lambda>a. a \<in> set [VString ''cat'']) [VString ''cat''] \<and>
   Eigenstates (EqualTo (VSup (Any [VInt 3])) (VSup (Any [VUint 3]))) \<noteq>
     filter (\<lambda>a. a \<in> set [VUint 3]) [VInt 3]"
proof -
  have "Eigenstates (EqualTo (VSup (Any [VInt (2 ^ 53 + 1)])) (VSup (Any [VInt (2 ^ 53)]))) =
          [VInt (2 ^ 53 + 1)]"
    by code_simp
  moreover have "Eigenstates (EqualTo (VSup (Any [VString ''cat''])) (VSup (Any [VString ''cat'']))) = []"
    by code_simp
  moreover have "Eigenstates (EqualTo (VSup (Any [VInt 3])) (VSup (Any [VUint 3]))) = [VInt 3]"
    by code_simp
  ultimately show ?thesis by simp
qed

text \<open>
  Claim C6. For every pair of operands and each of \<open>LessThan\<close>, \<open>GreaterThan\<close> and
  \<open>EqualTo\<close>, the mode of the result is the mode of the left operand, \<open>Disjunctive\<close>
  when the left operand is not a superposition; the right operand has no influence on it.
\<close>

theorem filter_mode_is_left_mode:
  "(\<forall>(f, c)\<in>set filter_ops.
      typ' (f a b) = snd (extractValues a) \<and> typ' (f a b) = typ' (f a b')) \<and>
   ((\<forall>s. a \<noteq> VSup s) \<longrightarrow> (\<forall>(f, c)\<in>set filter_ops. typ' (f a b) = Disjunctive))"
proof -
  have mode: "typ' (f a y) = snd (extractValues a)" if "(f, c) \<in> set filter_ops" for f c y
    by (simp add: filter_ops_compare [OF that] compareValues_eq)
  have scalar: "snd (extractValues a) = Disjunctive" if "\<forall>s. a \<noteq> VSup s"
    using that by (cases a) simp_all
  show ?thesis
    using mode scalar by (auto simp del: split_paired_All)
qed

theorem filter_mode_is_left_mode_witness:
  "typ' (LessThan (VSup (All' [VInt 1])) (VSup (Any [VInt 2]))) = Conjunctive \<and>
   typ' (LessThan (VSup (Any [VInt 1])) (VSup (All' [VInt 2]))) = Disjunctive \<and>
   typ' (EqualTo (VInt 1) (VSup (All' [VInt 2]))) = Disjunctive"
proof -
  have lt: "(LessThan, CHR ''<'') \<in> set filter_ops" and eq: "(EqualTo, CHR ''='') \<in> set filter_ops"
    by (simp_all add: filter_ops_def)
  have sc: "\<forall>s. VInt 1 \<noteq> VSup s" by simp
  have "typ' (LessThan a b) = snd (extractValues a)" for a b
    using filter_mode_is_left_mode [of a b] lt by fast
  moreover have "typ' (EqualTo (VInt 1) b) = Disjunctive" for b
    using filter_mode_is_left_mode [of "VInt 1" b] eq sc by fast
  ultimately show ?thesis by (simp add: Any_def All'_def)
qed

text \<open>
  Claim C9. In each filtering operation a left value for which no right value gives a
  verdict is rejected, whatever the mode of the right operand; a verdict is missing
  exactly when one of the two values fails numeric coercion. So the result is empty when
  the right operand has no values or only values that fail coercion: a conjunctive right
  operand is never satisfied vacuously.
\<close>

theorem filter_no_verdict_rejects:
  "(\<forall>(f, c)\<in>set filter_ops.
      ((\<forall>bv\<in>set (fst (extractValues b)). isl (performComparison av bv c)) \<longrightarrow>
         av \<notin> set (Eigenstates (f a b))) \<and>
      (\<forall>x y. isl (performComparison x y c) =
         (snd (getNumericValue x) = Invalid \<or> snd (getNumericValue y) = Invalid)) \<and>
      Eigenstates (f a (VSup (Superposition [] t))) = [] \<and>
      ((\<forall>bv\<in>set (fst (extractValues b)). snd (getNumericValue bv) = Invalid) \<longrightarrow>
         Eigenstates (f a b) = [])) \<and>
   Eigenstates
     (LessThan (VInt 10) (VSup (All' [VString ''cat'', VString ''dog'', VString ''bird'']))) = []"
proof (intro conjI ballI)
  fix p assume pm: "p \<in> set filter_ops"
  obtain f c where p: "p = (f, c)" by (cases p)
  have mem: "(f, c) \<in> set filter_ops" using pm p by simp
  note isl = performComparison_isl [OF filter_ops_chars [OF mem]]
  have rej: "av \<notin> set (Eigenstates (f a b))"
    if "\<forall>bv\<in>set (fst (extractValues b)). isl (performComparison av bv c)"
    using compare_inner_no_verdict [of "fst (extractValues b)" "\<lambda>x y. performComparison x y c" av]
      that by (simp add: filter_ops_Eigenstates [OF mem])
  have emp: "Eigenstates (f a (VSup (Superposition [] t))) = []"
    by (simp add: filter_ops_Eigenstates [OF mem])
  have inv: "Eigenstates (f a b) = []"
    if h: "\<forall>bv\<in>set (fst (extractValues b)). snd (getNumericValue bv) = Invalid"
  proof -
    have "compare_inner (\<lambda>x y. performComparison x y c) (snd (extractValues b)) x
            (fst (extractValues b)) False = False" for x
      by (rule compare_inner_no_verdict) (simp add: isl h)
    then show ?thesis by (simp add: filter_ops_Eigenstates [OF mem])
  qed
  show "case p of (f, c) \<Rightarrow>
      ((\<forall>bv\<in>set (fst (extractValues b)). isl (performComparison av bv c)) \<longrightarrow>
         av \<notin> set (Eigenstates (f a b))) \<and>
      (\<forall>x y. isl (performComparison x y c) =
         (snd (getNumericValue x) = Invalid \<or> snd (getNumericValue y) = Invalid)) \<and>
      Eigenstates (f a (VSup (Superposition [] t))) = [] \<and>
      ((\<forall>bv\<in>set (fst (extractValues b)). snd (getNumericValue bv) = Invalid) \<longrightarrow>
         Eigenstates (f a b) = [])"
    unfolding p using rej emp inv isl by simp
next
  show "Eigenstates
     (LessThan (VInt 10) (VSup (All' [VString ''cat'', VString ''dog'', VString ''bird'']))) = []"
    by code_simp
qed

theorem filter_no_verdict_rejects_witness:
  "VInt 3 \<notin> set (Eigenstates (EqualTo (VSup (Any [VInt 3, VInt 4])) (VSup (All' [])))) \<and>
   VInt 3 \<notin> set (Eigenstates (EqualTo (VSup (Any [VInt 3])) (VSup (Any [VString ''3''])))) \<and>
   Eigenstates (GreaterThan (VInt 3) (VSup (All' [VNil, VString ''x'']))) = []"
proof -
  have e: "(EqualTo, CHR ''='') \<in> set filter_ops" and g: "(GreaterThan, CHR ''>'') \<in> set filter_ops"
    by (simp_all add: filter_ops_def)
  have h1: "\<forall>bv\<in>set (fst (extractValues (VSup (All' [])))). isl (performComparison (VInt 3) bv CHR ''='')"
    by (simp add: All'_def)
  have h2: "\<forall>bv\<in>set (fst (extractValues (VSup (Any [VString ''3''])))).
              isl (performComparison (VInt 3) bv CHR ''='')"
    by (simp add: Any_def performComparison_def)
  have h3: "\<forall>bv\<in>set (fst (extractValues (VSup (All' [VNil, VString ''x''])))).
              snd (getNumericValue bv) = Invalid"
    by (simp add: All'_def)
  have "VInt 3 \<notin> set (Eigenstates (EqualTo (VSup (Any [VInt 3, VInt 4])) (VSup (All' []))))"
    using filter_no_verdict_rejects [of "VSup (All' [])" "VInt 3" "VSup (Any [VInt 3, VInt 4])"]
      e h1 by fast
  moreover have "VInt 3 \<notin> set (Eigenstates (EqualTo (VSup (Any [VInt 3])) (VSup (Any [VString ''3'']))))"
    using filter_no_verdict_rejects [of "VSup (Any [VString ''3''])" "VInt 3" "VSup (Any [VInt 3])"]
      e h2 by fast
  moreover have "Eigenstates (GreaterThan (VInt 3) (VSup (All' [VNil, VString ''x'']))) = []"
    using filter_no_verdict_rejects [of "VSup (All' [VNil, VString ''x''])" _ "VInt 3"]
      g h3 by fast
  ultimately show ?thesis by simp
qed

end
